theory Spec2Isabelle
  imports Complex_Main "HOL-Library.Sublist"
begin

section \<open>Values, hashing and errors\<close>

text \<open>
  The cache stores rows of type \<^verbatim>\<open>dict[str, any]\<close> (the \<^verbatim>\<open>model_dump()\<close> of a typed
  record), and the LLM wrapper handles parsed JSON. Both are built from the values below.
  A Python float is represented by the real number it denotes (no NaN, no infinities);
  \<open>VClass\<close> is a class object named by its identifier, such as \<^verbatim>\<open>str\<close>.
\<close>

datatype pyval =
    VNone
  | VBool bool
  | VInt int
  | VFloat real
  | VStr string
  | VList "pyval list"
  | VDict "(string \<times> pyval) list"
  | VClass string

text \<open>
  Membership in a Python \<^verbatim>\<open>set\<close> goes through \<^verbatim>\<open>hash\<close> and \<^verbatim>\<open>==\<close>: \<^verbatim>\<open>True\<close>, \<^verbatim>\<open>1\<close> and
  \<^verbatim>\<open>1.0\<close> are the same member, lists and dicts are unhashable (\<^verbatim>\<open>TypeError\<close>).
  \<open>hash_key\<close> maps a value to the canonical representative of its class, or to \<open>None\<close>
  when the value is unhashable.
\<close>

datatype hkey = HNone | HNum real | HStr string | HClass string

fun hash_key :: "pyval \<Rightarrow> hkey option" where
  "hash_key VNone = Some HNone"
| "hash_key (VBool b) = Some (HNum (if b then 1 else 0))"
| "hash_key (VInt i) = Some (HNum (of_int i))"
| "hash_key (VFloat x) = Some (HNum x)"
| "hash_key (VStr s) = Some (HStr s)"
| "hash_key (VList xs) = None"
| "hash_key (VDict kvs) = None"
| "hash_key (VClass c) = Some (HClass c)"

datatype error =
    KeyError string
  | TypeError
  | ValueError
  | AttributeError
  | IndexError
  | ValidationError
  | JSONDecodeError
  | NameError
  | BackendError

section \<open>The merge cache (src/data/cache.py)\<close>

type_synonym row = "string \<rightharpoonup> pyval"

text \<open>
  \<^verbatim>\<open>existing_keys = {item[key_field] for item in existing}\<close>: the subscript raises
  \<^verbatim>\<open>KeyError\<close> on a row without the field, the insertion raises \<^verbatim>\<open>TypeError\<close> on an
  unhashable value; rows are visited in order, so the first offending row decides.
\<close>

fun existing_keys_of :: "row list \<Rightarrow> string \<Rightarrow> error + hkey set" where
  "existing_keys_of [] key_field = Inr {}"
| "existing_keys_of (item # items) key_field =
     (case item key_field of
        None \<Rightarrow> Inl (KeyError key_field)
      | Some v \<Rightarrow>
          (case hash_key v of
             None \<Rightarrow> Inl TypeError
           | Some k \<Rightarrow>
               (case existing_keys_of items key_field of
                  Inl e \<Rightarrow> Inl e
                | Inr ks \<Rightarrow> Inr (insert k ks))))"

text \<open>
  \<^verbatim>\<open>[item for item in new_data if item[key_field] not in existing_keys]\<close>, with the same
  two ways of raising.
\<close>

fun new_items :: "row list \<Rightarrow> string \<Rightarrow> hkey set \<Rightarrow> error + row list" where
  "new_items [] key_field existing_keys = Inr []"
| "new_items (item # items) key_field existing_keys =
     (case item key_field of
        None \<Rightarrow> Inl (KeyError key_field)
      | Some v \<Rightarrow>
          (case hash_key v of
             None \<Rightarrow> Inl TypeError
           | Some k \<Rightarrow>
               (case new_items items key_field existing_keys of
                  Inl e \<Rightarrow> Inl e
                | Inr rest \<Rightarrow> Inr (if k \<notin> existing_keys then item # rest else rest))))"

text \<open>
  \<^verbatim>\<open>Cache._merge_data\<close>. \<^verbatim>\<open>not existing\<close> holds for \<^verbatim>\<open>None\<close> and for the empty list; then
  the new data is returned as it is. Otherwise the result is a copy of \<open>existing\<close>
  extended by the new items.
\<close>

definition merge_data :: "row list option \<Rightarrow> row list \<Rightarrow> string \<Rightarrow> error + row list" where
  "merge_data existing new_data key_field =
     (case existing of
        None \<Rightarrow> Inr new_data
      | Some ex \<Rightarrow>
          if ex = [] then Inr new_data
          else
            (case existing_keys_of ex key_field of
               Inl e \<Rightarrow> Inl e
             | Inr existing_keys \<Rightarrow>
                 (case new_items new_data key_field existing_keys of
                    Inl e \<Rightarrow> Inl e
                  | Inr fresh \<Rightarrow> Inr (ex @ fresh))))"

record Cache =
  prices_cache :: "string \<rightharpoonup> row list"
  financial_metrics_cache :: "string \<rightharpoonup> row list"
  line_items_cache :: "string \<rightharpoonup> row list"
  insider_trades_cache :: "string \<rightharpoonup> row list"
  company_news_cache :: "string \<rightharpoonup> row list"

text \<open>\<^verbatim>\<open>Cache.__init__\<close>: five empty dictionaries.\<close>

definition init_cache :: Cache where
  "init_cache =
     \<lparr> prices_cache = Map.empty, financial_metrics_cache = Map.empty,
       line_items_cache = Map.empty, insider_trades_cache = Map.empty,
       company_news_cache = Map.empty \<rparr>"

definition get_prices :: "Cache \<Rightarrow> string \<Rightarrow> row list option" where
  "get_prices c ticker = prices_cache c ticker"

definition get_financial_metrics :: "Cache \<Rightarrow> string \<Rightarrow> row list option" where
  "get_financial_metrics c ticker = financial_metrics_cache c ticker"

definition get_line_items :: "Cache \<Rightarrow> string \<Rightarrow> row list option" where
  "get_line_items c ticker = line_items_cache c ticker"

definition get_insider_trades :: "Cache \<Rightarrow> string \<Rightarrow> row list option" where
  "get_insider_trades c ticker = insider_trades_cache c ticker"

definition get_company_news :: "Cache \<Rightarrow> string \<Rightarrow> row list option" where
  "get_company_news c ticker = company_news_cache c ticker"

text \<open>
  A setter evaluates the merge first and assigns to the dictionary afterwards. It
  returns the raised error (if any) together with the cache as it is after the call.
\<close>

definition set_prices :: "Cache \<Rightarrow> string \<Rightarrow> row list \<Rightarrow> error option \<times> Cache" where
  "set_prices c ticker data =
     (case merge_data (prices_cache c ticker) data ''time'' of
        Inl e \<Rightarrow> (Some e, c)
      | Inr merged \<Rightarrow> (None, c\<lparr>prices_cache := (prices_cache c)(ticker \<mapsto> merged)\<rparr>))"

definition set_financial_metrics :: "Cache \<Rightarrow> string \<Rightarrow> row list \<Rightarrow> error option \<times> Cache" where
  "set_financial_metrics c ticker data =
     (case merge_data (financial_metrics_cache c ticker) data ''report_period'' of
        Inl e \<Rightarrow> (Some e, c)
      | Inr merged \<Rightarrow>
          (None, c\<lparr>financial_metrics_cache := (financial_metrics_cache c)(ticker \<mapsto> merged)\<rparr>))"

definition set_line_items :: "Cache \<Rightarrow> string \<Rightarrow> row list \<Rightarrow> error option \<times> Cache" where
  "set_line_items c ticker data =
     (case merge_data (line_items_cache c ticker) data ''report_period'' of
        Inl e \<Rightarrow> (Some e, c)
      | Inr merged \<Rightarrow> (None, c\<lparr>line_items_cache := (line_items_cache c)(ticker \<mapsto> merged)\<rparr>))"

definition set_insider_trades :: "Cache \<Rightarrow> string \<Rightarrow> row list \<Rightarrow> error option \<times> Cache" where
  "set_insider_trades c ticker data =
     (case merge_data (insider_trades_cache c ticker) data ''filing_date'' of
        Inl e \<Rightarrow> (Some e, c)
      | Inr merged \<Rightarrow>
          (None, c\<lparr>insider_trades_cache := (insider_trades_cache c)(ticker \<mapsto> merged)\<rparr>))"

definition set_company_news :: "Cache \<Rightarrow> string \<Rightarrow> row list \<Rightarrow> error option \<times> Cache" where
  "set_company_news c ticker data =
     (case merge_data (company_news_cache c ticker) data ''date'' of
        Inl e \<Rightarrow> (Some e, c)
      | Inr merged \<Rightarrow>
          (None, c\<lparr>company_news_cache := (company_news_cache c)(ticker \<mapsto> merged)\<rparr>))"

subsection \<open>The five kinds, uniformly\<close>

datatype kind = Price | FinancialMetric | LineItem | InsiderTrade | CompanyNews

fun identity_field :: "kind \<Rightarrow> string" where
  "identity_field Price = ''time''"
| "identity_field FinancialMetric = ''report_period''"
| "identity_field LineItem = ''report_period''"
| "identity_field InsiderTrade = ''filing_date''"
| "identity_field CompanyNews = ''date''"

fun get_kind :: "kind \<Rightarrow> Cache \<Rightarrow> string \<Rightarrow> row list option" where
  "get_kind Price = get_prices"
| "get_kind FinancialMetric = get_financial_metrics"
| "get_kind LineItem = get_line_items"
| "get_kind InsiderTrade = get_insider_trades"
| "get_kind CompanyNews = get_company_news"

fun set_kind :: "kind \<Rightarrow> Cache \<Rightarrow> string \<Rightarrow> row list \<Rightarrow> error option \<times> Cache" where
  "set_kind Price = set_prices"
| "set_kind FinancialMetric = set_financial_metrics"
| "set_kind LineItem = set_line_items"
| "set_kind InsiderTrade = set_insider_trades"
| "set_kind CompanyNews = set_company_news"

text \<open>A run of set operations of one kind on one ticker; a raised error ends the run.\<close>

fun set_many :: "kind \<Rightarrow> string \<Rightarrow> Cache \<Rightarrow> row list list \<Rightarrow> error option \<times> Cache" where
  "set_many k ticker c [] = (None, c)"
| "set_many k ticker c (data # rest) =
     (case set_kind k c ticker data of
        (Some e, c') \<Rightarrow> (Some e, c')
      | (None, c') \<Rightarrow> set_many k ticker c' rest)"

subsection \<open>Vocabulary of the properties\<close>

text \<open>The identity value of a row, as a set member; \<open>None\<close> when the field is missing or unhashable.\<close>

definition identity_value :: "string \<Rightarrow> row \<Rightarrow> hkey option" where
  "identity_value key_field item =
     (case item key_field of None \<Rightarrow> None | Some v \<Rightarrow> hash_key v)"

definition keyed :: "string \<Rightarrow> row list \<Rightarrow> bool" where
  "keyed key_field items = list_all (\<lambda>item. identity_value key_field item \<noteq> None) items"

text \<open>The bucket invariant: no two rows of a bucket share an identity value.\<close>

definition unique_identities :: "string \<Rightarrow> row list \<Rightarrow> bool" where
  "unique_identities key_field items = distinct (map (identity_value key_field) items)"

text \<open>An incoming row is fresh when its identity value does not occur in \<open>existing\<close>.\<close>

definition fresh_for :: "string \<Rightarrow> row list \<Rightarrow> row \<Rightarrow> bool" where
  "fresh_for key_field existing item =
     (identity_value key_field item \<notin> set (map (identity_value key_field) existing))"

text \<open>Writing a bucket, as the last step of every setter does.\<close>

fun store_kind :: "kind \<Rightarrow> Cache \<Rightarrow> string \<Rightarrow> row list \<Rightarrow> Cache" where
  "store_kind Price c t m = c\<lparr>prices_cache := (prices_cache c)(t \<mapsto> m)\<rparr>"
| "store_kind FinancialMetric c t m =
     c\<lparr>financial_metrics_cache := (financial_metrics_cache c)(t \<mapsto> m)\<rparr>"
| "store_kind LineItem c t m = c\<lparr>line_items_cache := (line_items_cache c)(t \<mapsto> m)\<rparr>"
| "store_kind InsiderTrade c t m =
     c\<lparr>insider_trades_cache := (insider_trades_cache c)(t \<mapsto> m)\<rparr>"
| "store_kind CompanyNews c t m = c\<lparr>company_news_cache := (company_news_cache c)(t \<mapsto> m)\<rparr>"



section \<open>The model registry (src/llm/models.py)\<close>

text \<open>
  \<^verbatim>\<open>ModelProvider\<close> is declared with three members, whose values are the strings below.
  Reading a member by name is an attribute access on the enum class: a name that is no
  member raises \<^verbatim>\<open>AttributeError\<close>.
\<close>

datatype ModelProvider = OPENAI | GROQ | ANTHROPIC

fun provider_value :: "ModelProvider \<Rightarrow> string" where
  "provider_value OPENAI = ''OpenAI''"
| "provider_value GROQ = ''Groq''"
| "provider_value ANTHROPIC = ''Anthropic''"

definition ModelProvider_attr :: "string \<Rightarrow> error + ModelProvider" where
  "ModelProvider_attr member_name =
     (if member_name = ''OPENAI'' then Inr OPENAI
      else if member_name = ''GROQ'' then Inr GROQ
      else if member_name = ''ANTHROPIC'' then Inr ANTHROPIC
      else Inl AttributeError)"

record LLMModel =
  display_name :: string
  model_name :: string
  provider :: ModelProvider

definition is_deepseek :: "LLMModel \<Rightarrow> bool" where
  "is_deepseek m = prefix ''deepseek'' (model_name m)"

definition is_gemini :: "LLMModel \<Rightarrow> bool" where
  "is_gemini m = prefix ''gemini'' (model_name m)"

text \<open>
  The entries of the list literal \<^verbatim>\<open>AVAILABLE_MODELS\<close>, as written: display name, model
  name, and the name of the enum member the entry reads.
\<close>

definition model_entries :: "(string \<times> string \<times> string) list" where
  "model_entries =
     [ (''[anthropic] claude-3.5-haiku'', ''claude-3-5-haiku-latest'', ''ANTHROPIC''),
       (''[anthropic] claude-3.5-sonnet'', ''claude-3-5-sonnet-latest'', ''ANTHROPIC''),
       (''[anthropic] claude-3.7-sonnet'', ''claude-3-7-sonnet-latest'', ''ANTHROPIC''),
       (''[deepseek] deepseek-r1'', ''deepseek-reasoner'', ''DEEPSEEK''),
       (''[deepseek] deepseek-v3'', ''deepseek-chat'', ''DEEPSEEK''),
       (''[gemini] gemini-2.0-flash'', ''gemini-2.0-flash'', ''GEMINI''),
       (''[gemini] gemini-2.0-pro'', ''gemini-2.0-pro-exp-02-05'', ''GEMINI''),
       (''[groq] llama-3.3 70b'', ''llama-3.3-70b-versatile'', ''GROQ''),
       (''[openai] gpt-4o'', ''gpt-4o'', ''OPENAI''),
       (''[openai] o1'', ''o1'', ''OPENAI''),
       (''[openai] o3-mini'', ''o3-mini'', ''OPENAI'') ]"

text \<open>
  The list is built when the module is executed, entry by entry from the first; an entry
  whose member does not exist raises and ends the execution of the module.
\<close>

fun build_models :: "(string \<times> string \<times> string) list \<Rightarrow> error + LLMModel list" where
  "build_models [] = Inr []"
| "build_models ((shown, name, member_name) # entries) =
     (case ModelProvider_attr member_name of
        Inl e \<Rightarrow> Inl e
      | Inr p \<Rightarrow>
          (case build_models entries of
             Inl e \<Rightarrow> Inl e
           | Inr models \<Rightarrow>
               Inr (\<lparr>display_name = shown, model_name = name, provider = p\<rparr> # models)))"

definition AVAILABLE_MODELS :: "error + LLMModel list" where
  "AVAILABLE_MODELS = build_models model_entries"

text \<open>
  \<^verbatim>\<open>from llm.models import get_model, get_model_info\<close>: the module is executed (its
  library imports and class definitions are taken to succeed) up to and including
  \<^verbatim>\<open>AVAILABLE_MODELS\<close>; the import yields the built list or the error raised. A failed
  import is not cached, so every import executes the module again.
\<close>

definition import_llm_models :: "error + LLMModel list" where
  "import_llm_models = AVAILABLE_MODELS"

text \<open>\<^verbatim>\<open>get_model_info\<close>, over the list the module built.\<close>

definition get_model_info :: "LLMModel list \<Rightarrow> string \<Rightarrow> LLMModel option" where
  "get_model_info models name = find (\<lambda>model. model_name model = name) models"

text \<open>
  A schema instance is the list of its field values. The backend is outside the program:
  a client answers the \<open>n\<close>-th \<^verbatim>\<open>invoke(prompt)\<close> of one \<^verbatim>\<open>call_llm\<close> run (counted from 0)
  by raising or by returning the \<^verbatim>\<open>.content\<close> of its message; \<^verbatim>\<open>with_structured_output\<close>
  raises or yields a wrapper, which answers its \<open>n\<close>-th \<^verbatim>\<open>invoke\<close> by raising or by
  returning an instance.
\<close>

type_synonym pyobj = "(string \<times> pyval) list"

record llm_client =
  invoke :: "nat \<Rightarrow> error + string"
  with_structured_output :: "error + (nat \<Rightarrow> error + pyobj)"

text \<open>
  One of the first three branches of \<^verbatim>\<open>get_model\<close>: read the key with \<^verbatim>\<open>os.getenv\<close>, raise
  \<^verbatim>\<open>ValueError\<close> when it is unset or empty, otherwise call the provider's chat class
  (library code, a parameter here, which may itself raise).
\<close>

definition connect_with_key ::
  "(string \<Rightarrow> string option) \<Rightarrow> (ModelProvider \<Rightarrow> string \<Rightarrow> string \<Rightarrow> error + llm_client) \<Rightarrow>
   string \<Rightarrow> ModelProvider \<Rightarrow> string \<Rightarrow> error + llm_client option" where
  "connect_with_key getenv chat_class var p name =
     (case getenv var of
        None \<Rightarrow> Inl ValueError
      | Some api_key \<Rightarrow>
          if api_key = [] then Inl ValueError
          else (case chat_class p name api_key of Inl e \<Rightarrow> Inl e | Inr client \<Rightarrow> Inr (Some client)))"

text \<open>
  One of the last two branches: after the same test of the key comes a call of a chat
  class that the module does not import, a \<^verbatim>\<open>NameError\<close>.
\<close>

definition connect_unimported :: "(string \<Rightarrow> string option) \<Rightarrow> string \<Rightarrow> error + llm_client option" where
  "connect_unimported getenv var =
     (case getenv var of
        None \<Rightarrow> Inl ValueError
      | Some api_key \<Rightarrow> if api_key = [] then Inl ValueError else Inl NameError)"

text \<open>
  \<^verbatim>\<open>get_model\<close>. The provider arrives as a string and is compared with the members in the
  order of the \<^verbatim>\<open>if\<close>/\<^verbatim>\<open>elif\<close> chain; each comparison first reads the member. A chain that
  matches nowhere falls off the end, which returns \<^verbatim>\<open>None\<close>.
\<close>

definition get_model ::
  "(string \<Rightarrow> string option) \<Rightarrow> (ModelProvider \<Rightarrow> string \<Rightarrow> string \<Rightarrow> error + llm_client) \<Rightarrow>
   string \<Rightarrow> string \<Rightarrow> error + llm_client option" where
  "get_model getenv chat_class name model_provider =
     (if model_provider = provider_value GROQ then
        connect_with_key getenv chat_class ''GROQ_API_KEY'' GROQ name
      else if model_provider = provider_value OPENAI then
        connect_with_key getenv chat_class ''OPENAI_API_KEY'' OPENAI name
      else if model_provider = provider_value ANTHROPIC then
        connect_with_key getenv chat_class ''ANTHROPIC_API_KEY'' ANTHROPIC name
      else
        (case ModelProvider_attr ''DEEPSEEK'' of
           Inl e \<Rightarrow> Inl e
         | Inr deepseek \<Rightarrow>
             if model_provider = provider_value deepseek then
               connect_unimported getenv ''DEEPSEEK_API_KEY''
             else
               (case ModelProvider_attr ''GEMINI'' of
                  Inl e \<Rightarrow> Inl e
                | Inr gemini \<Rightarrow>
                    if model_provider = provider_value gemini then
                      connect_unimported getenv ''GOOGLE_API_KEY''
                    else Inr None)))"

section \<open>The LLM invocation core (src/utils/llm.py)\<close>

subsection \<open>Default-instance synthesis\<close>

text \<open>
  A field annotation is either a plain class (\<^verbatim>\<open>str\<close>, \<^verbatim>\<open>float\<close>, \<^verbatim>\<open>int\<close>, \<^verbatim>\<open>bool\<close>, the builtin
  \<^verbatim>\<open>dict\<close>, ...), which has neither \<^verbatim>\<open>__origin__\<close> nor \<^verbatim>\<open>__args__\<close>, or a parametrised form
  with both (\<^verbatim>\<open>dict[str, float]\<close>, \<^verbatim>\<open>Literal["a", "b"]\<close>, \<^verbatim>\<open>list[str]\<close>, ...), given by the name
  of its origin and its arguments. A target schema is a Pydantic class: \<open>model_fields\<close>
  are its declared fields in order; \<open>construct\<close> is its constructor called with keyword
  arguments, library code that validates them and returns an instance or raises.
\<close>

datatype annotation = Plain string | Generic string "pyval list"

record model_class =
  model_fields :: "(string \<times> annotation) list"
  construct :: "(string \<times> pyval) list \<Rightarrow> error + pyobj"

text \<open>
  The body of the loop of \<^verbatim>\<open>create_default_response\<close> for one field: the three
  comparisons with \<^verbatim>\<open>str\<close>, \<^verbatim>\<open>float\<close>, \<^verbatim>\<open>int\<close>, the test that the annotation has an
  \<^verbatim>\<open>__origin__\<close> and that it is \<^verbatim>\<open>dict\<close>, and otherwise \<^verbatim>\<open>__args__[0]\<close> when the annotation has
  \<^verbatim>\<open>__args__\<close> (an \<^verbatim>\<open>IndexError\<close> on an empty tuple) and \<^verbatim>\<open>None\<close> when it has not.
\<close>

fun default_value :: "annotation \<Rightarrow> error + pyval" where
  "default_value (Plain c) =
     (if c = ''str'' then Inr (VStr ''Error in analysis, using default'')
      else if c = ''float'' then Inr (VFloat 0)
      else if c = ''int'' then Inr (VInt 0)
      else Inr VNone)"
| "default_value (Generic origin args) =
     (if origin = ''dict'' then Inr (VDict [])
      else (case args of [] \<Rightarrow> Inl IndexError | a # _ \<Rightarrow> Inr a))"

fun default_values :: "(string \<times> annotation) list \<Rightarrow> error + (string \<times> pyval) list" where
  "default_values [] = Inr []"
| "default_values ((field_name, ann) # flds) =
     (case default_value ann of
        Inl e \<Rightarrow> Inl e
      | Inr v \<Rightarrow>
          (case default_values flds of
             Inl e \<Rightarrow> Inl e
           | Inr vs \<Rightarrow> Inr ((field_name, v) # vs)))"

definition create_default_response :: "model_class \<Rightarrow> error + pyobj" where
  "create_default_response cls =
     (case default_values (model_fields cls) of
        Inl e \<Rightarrow> Inl e
      | Inr kwargs \<Rightarrow> construct cls kwargs)"

subsection \<open>Extraction of fenced JSON\<close>

text \<open>\<^verbatim>\<open>s.find(sub)\<close>: the lowest index at which \<open>sub\<close> occurs in \<open>s\<close>; \<open>None\<close> stands for \<open>-1\<close>.\<close>

fun str_find :: "string \<Rightarrow> string \<Rightarrow> nat option" where
  "str_find [] sub = (if sub = [] then Some 0 else None)"
| "str_find (c # cs) sub =
     (if prefix sub (c # cs) then Some 0
      else (case str_find cs sub of None \<Rightarrow> None | Some i \<Rightarrow> Some (Suc i)))"

text \<open>
  \<^verbatim>\<open>s.strip()\<close> removes the characters for which \<^verbatim>\<open>isspace\<close> holds from both ends. A
  character is a code point below 256; there \<^verbatim>\<open>isspace\<close> holds for 9 to 13, 28 to 32, 133
  and 160.
\<close>

definition is_space :: "char \<Rightarrow> bool" where
  "is_space c =
     (let n = (of_char c :: nat)
      in (9 \<le> n \<and> n \<le> 13) \<or> (28 \<le> n \<and> n \<le> 32) \<or> n = 133 \<or> n = 160)"

definition strip :: "string \<Rightarrow> string" where
  "strip s = rev (dropWhile is_space (rev (dropWhile is_space s)))"

definition json_fence :: string where
  "json_fence = [CHR 0x60, CHR 0x60, CHR 0x60, CHR ''j'', CHR ''s'', CHR ''o'', CHR ''n'']"

definition code_fence :: string where
  "code_fence = [CHR 0x60, CHR 0x60, CHR 0x60]"

text \<open>
  \<^verbatim>\<open>extract_json_from_deepseek_response\<close>. \<^verbatim>\<open>json.loads\<close> is library code and a parameter;
  whatever it raises is caught and the function returns \<^verbatim>\<open>None\<close>, as it does when a
  fence is not found. The result is the Python value returned, \<open>VNone\<close> for \<^verbatim>\<open>None\<close>.
\<close>

definition extract_json_from_deepseek_response ::
  "(string \<Rightarrow> error + pyval) \<Rightarrow> string \<Rightarrow> pyval" where
  "extract_json_from_deepseek_response json_loads content =
     (case str_find content json_fence of
        None \<Rightarrow> VNone
      | Some json_start \<Rightarrow>
          (let json_text = drop (json_start + 7) content in
           case str_find json_text code_fence of
             None \<Rightarrow> VNone
           | Some json_end \<Rightarrow>
               (case json_loads (strip (take json_end json_text)) of
                  Inl e \<Rightarrow> VNone
                | Inr parsed \<Rightarrow> parsed)))"

subsection \<open>The retry loop\<close>

text \<open>Truth value of a Python value, as \<^verbatim>\<open>if parsed_result:\<close> tests it.\<close>

fun truthy :: "pyval \<Rightarrow> bool" where
  "truthy VNone = False"
| "truthy (VBool b) = b"
| "truthy (VInt i) = (i \<noteq> 0)"
| "truthy (VFloat x) = (x \<noteq> 0)"
| "truthy (VStr s) = (s \<noteq> [])"
| "truthy (VList xs) = (xs \<noteq> [])"
| "truthy (VDict kvs) = (kvs \<noteq> [])"
| "truthy (VClass c) = True"

text \<open>
  What a run of \<^verbatim>\<open>call_llm\<close> does to the world: the number of backend invocations, the
  calls of \<^verbatim>\<open>progress.update_status\<close> (agent name, and the two numbers of the message
  \<^verbatim>\<open>Error - retry a/m\<close>), and the number of calls of the fallback factory.
\<close>

record run_log =
  backend_calls :: nat
  status_updates :: "(string \<times> nat \<times> int) list"
  factory_calls :: nat

definition log0 :: run_log where
  "log0 = \<lparr>backend_calls = 0, status_updates = [], factory_calls = 0\<rparr>"

text \<open>
  The value of the variable \<^verbatim>\<open>llm\<close> when the loop starts: \<^verbatim>\<open>None\<close>, the chat model, or the
  wrapper for structured output. The test of line 73 is the test of line 60, so the chat
  model itself is invoked exactly for a deepseek model.
\<close>

datatype llm = NoLLM | ChatModel llm_client | StructuredLLM "nat \<Rightarrow> error + pyobj"

text \<open>
  The body of the \<^verbatim>\<open>try\<close>: \<open>Inr (Some r)\<close> when it returns \<open>r\<close>, \<open>Inr None\<close> when it ends
  without returning (the parsed result is falsy), \<open>Inl e\<close> when it raises. \<^verbatim>\<open>llm.invoke\<close> on
  \<^verbatim>\<open>None\<close> is an \<^verbatim>\<open>AttributeError\<close>; \<^verbatim>\<open>pydantic_model(**parsed_result)\<close> is a \<^verbatim>\<open>TypeError\<close> unless
  the value is a mapping.
\<close>

definition try_body ::
  "(string \<Rightarrow> error + pyval) \<Rightarrow> llm \<Rightarrow> model_class \<Rightarrow> nat \<Rightarrow> error + pyobj option" where
  "try_body json_loads llm_var pydantic_model attempt =
     (case llm_var of
        NoLLM \<Rightarrow> Inl AttributeError
      | ChatModel client \<Rightarrow>
          (case invoke client attempt of
             Inl e \<Rightarrow> Inl e
           | Inr content \<Rightarrow>
               (let parsed_result = extract_json_from_deepseek_response json_loads content in
                if truthy parsed_result then
                  (case parsed_result of
                     VDict kwargs \<Rightarrow>
                       (case construct pydantic_model kwargs of
                          Inl e \<Rightarrow> Inl e
                        | Inr obj \<Rightarrow> Inr (Some obj))
                   | _ \<Rightarrow> Inl TypeError)
                else Inr None))
      | StructuredLLM run \<Rightarrow>
          (case run attempt of
             Inl e \<Rightarrow> Inl e
           | Inr result \<Rightarrow> Inr (Some result)))"

definition agent_given :: "string option \<Rightarrow> bool" where
  "agent_given agent_name = (case agent_name of None \<Rightarrow> False | Some a \<Rightarrow> a \<noteq> [])"

text \<open>
  \<^verbatim>\<open>for attempt in range(max_retries)\<close> with its \<^verbatim>\<open>try\<close>/\<^verbatim>\<open>except\<close>, and the statement after
  the loop. The fallback factory is given by what calling it yields.
\<close>

fun attempt_loop ::
  "(string \<Rightarrow> error + pyval) \<Rightarrow> llm \<Rightarrow> model_class \<Rightarrow> string option \<Rightarrow> int \<Rightarrow>
   (error + pyobj) option \<Rightarrow> nat list \<Rightarrow> run_log \<Rightarrow> (error + pyobj) \<times> run_log" where
  "attempt_loop json_loads llm_var pydantic_model agent_name max_retries default_factory
     [] lg = (create_default_response pydantic_model, lg)"
| "attempt_loop json_loads llm_var pydantic_model agent_name max_retries default_factory
     (attempt # later) lg =
     (let log1 = (if llm_var = NoLLM then lg else lg\<lparr>backend_calls := backend_calls lg + 1\<rparr>) in
      case try_body json_loads llm_var pydantic_model attempt of
        Inr (Some result) \<Rightarrow> (Inr result, log1)
      | Inr None \<Rightarrow>
          attempt_loop json_loads llm_var pydantic_model agent_name max_retries
            default_factory later log1
      | Inl e \<Rightarrow>
          (let log2 =
             (if agent_given agent_name
              then log1\<lparr>status_updates :=
                     status_updates log1 @ [(the agent_name, attempt + 1, max_retries)]\<rparr>
              else log1) in
           if int attempt = max_retries - 1 then
             (case default_factory of
                Some made \<Rightarrow> (made, log2\<lparr>factory_calls := factory_calls log2 + 1\<rparr>)
              | None \<Rightarrow> (create_default_response pydantic_model, log2))
           else
             attempt_loop json_loads llm_var pydantic_model agent_name max_retries
               default_factory later log2))"

text \<open>
  Lines 56 to 64 of \<^verbatim>\<open>call_llm\<close>: the model's entry in the registry, model resolution, and
  for a model that is not a deepseek one the wrapping for structured output
  (\<^verbatim>\<open>None.with_structured_output\<close> is an \<^verbatim>\<open>AttributeError\<close>).
\<close>

definition resolve_llm ::
  "(string \<Rightarrow> string option) \<Rightarrow> (ModelProvider \<Rightarrow> string \<Rightarrow> string \<Rightarrow> error + llm_client) \<Rightarrow>
   LLMModel list \<Rightarrow> string \<Rightarrow> string \<Rightarrow> error + llm" where
  "resolve_llm getenv chat_class models name model_provider =
     (let model_info = get_model_info models name in
      case get_model getenv chat_class name model_provider of
        Inl e \<Rightarrow> Inl e
      | Inr got \<Rightarrow>
          if (case model_info of None \<Rightarrow> False | Some m \<Rightarrow> is_deepseek m) then
            Inr (case got of None \<Rightarrow> NoLLM | Some client \<Rightarrow> ChatModel client)
          else
            (case got of
               None \<Rightarrow> Inl AttributeError
             | Some client \<Rightarrow>
                 (case with_structured_output client of
                    Inl e \<Rightarrow> Inl e
                  | Inr run \<Rightarrow> Inr (StructuredLLM run))))"

text \<open>
  \<^verbatim>\<open>call_llm\<close>. Its first statement is the import of the registry module; the import, the
  model resolution and the wrapping all stand before the \<^verbatim>\<open>try\<close>, so what they raise
  leaves the function.
\<close>

definition call_llm ::
  "(string \<Rightarrow> string option) \<Rightarrow> (ModelProvider \<Rightarrow> string \<Rightarrow> string \<Rightarrow> error + llm_client) \<Rightarrow>
   (string \<Rightarrow> error + pyval) \<Rightarrow> string \<Rightarrow> string \<Rightarrow> model_class \<Rightarrow> string option \<Rightarrow> int \<Rightarrow>
   (error + pyobj) option \<Rightarrow> run_log \<Rightarrow> (error + pyobj) \<times> run_log" where
  "call_llm getenv chat_class json_loads name model_provider pydantic_model agent_name
     max_retries default_factory lg =
     (case import_llm_models of
        Inl e \<Rightarrow> (Inl e, lg)
      | Inr models \<Rightarrow>
          (case resolve_llm getenv chat_class models name model_provider of
             Inl e \<Rightarrow> (Inl e, lg)
           | Inr llm_var \<Rightarrow>
               attempt_loop json_loads llm_var pydantic_model agent_name max_retries
                 default_factory [0..<nat max_retries] lg))"

subsection \<open>Vocabulary of the properties of the extraction\<close>

text \<open>
  \<open>sub\<close> occurs in \<open>s\<close> at index \<open>i\<close>, and \<open>i\<close> is the index of its first occurrence.
\<close>

definition occurs_at :: "string \<Rightarrow> string \<Rightarrow> nat \<Rightarrow> bool" where
  "occurs_at sub s i = (i \<le> length s \<and> prefix sub (drop i s))"

definition first_at :: "string \<Rightarrow> string \<Rightarrow> nat \<Rightarrow> bool" where
  "first_at sub s i = (occurs_at sub s i \<and> (\<forall>j<i. \<not> occurs_at sub s j))"


section \<open>Example data\<close>

text \<open>The rows of the duplicate-drop example, and some price rows.\<close>

definition row_A1 :: row where "row_A1 = [''id'' \<mapsto> VStr ''A'', ''v'' \<mapsto> VInt 1]"
definition row_A2 :: row where "row_A2 = [''id'' \<mapsto> VStr ''A'', ''v'' \<mapsto> VInt 2]"
definition row_B3 :: row where "row_B3 = [''id'' \<mapsto> VStr ''B'', ''v'' \<mapsto> VInt 3]"

definition row_p1 :: row where
  "row_p1 = [''time'' \<mapsto> VStr ''2024-01-02'', ''close'' \<mapsto> VFloat 10]"
definition row_p2 :: row where
  "row_p2 = [''time'' \<mapsto> VStr ''2024-01-02'', ''close'' \<mapsto> VFloat 11]"
definition row_p3 :: row where
  "row_p3 = [''time'' \<mapsto> VStr ''2024-01-03'', ''close'' \<mapsto> VFloat 12]"
definition row_nokey :: row where "row_nokey = [''close'' \<mapsto> VFloat 1]"

text \<open>A cache whose price bucket for AAPL holds one row.\<close>

definition cache_p1 :: Cache where
  "cache_p1 = snd (set_prices init_cache ''AAPL'' [row_p1])"

text \<open>
  The reply of the extraction example; a stand-in for \<^verbatim>\<open>json.loads\<close> that knows the
  example's JSON document (surrounded by JSON white space or not) and rejects every other
  text; replies without any fence, with an opening fence only, with a fenced block that
  is not JSON, and with the document padded by no-break spaces.
\<close>

definition signal_json :: string where
  \<open>signal_json = ''{"signal":"bullish","confidence":80.0,"reasoning":"x"}''\<close>

definition signal_reply :: string where
  "signal_reply = ''preamble '' @ json_fence @ [CHR 0x0A] @ signal_json @ [CHR 0x0A]
      @ code_fence @ [CHR 0x0A] @ ''trailing''"

definition json_space :: "char \<Rightarrow> bool" where
  "json_space c = (c = CHR '' '' \<or> c = CHR 0x09 \<or> c = CHR 0x0A \<or> c = CHR 0x0D)"

definition signal_loads :: "string \<Rightarrow> error + pyval" where
  "signal_loads s =
     (if rev (dropWhile json_space (rev (dropWhile json_space s))) = signal_json
      then Inr (VDict [(''signal'', VStr ''bullish''), (''confidence'', VFloat 80),
                       (''reasoning'', VStr ''x'')])
      else Inl JSONDecodeError)"

definition plain_reply :: string where
  "plain_reply = ''no json here''"

definition open_reply :: string where
  "open_reply = json_fence @ ''{}''"

definition bad_reply :: string where
  "bad_reply = json_fence @ ''{broken'' @ code_fence"

definition padded_json :: string where
  "padded_json = [CHR 0xA0] @ signal_json @ [CHR 0xA0]"

definition nbsp_reply :: string where
  "nbsp_reply = json_fence @ padded_json @ code_fence"

text \<open>Schemas with one mapping field: the builtin \<^verbatim>\<open>dict\<close>, and \<^verbatim>\<open>dict[str, float]\<close>.\<close>

definition bare_dict_fields :: "(string \<times> annotation) list" where
  "bare_dict_fields = [(''data'', Plain ''dict'')]"

definition typed_dict_fields :: "(string \<times> annotation) list" where
  "typed_dict_fields = [(''data'', Generic ''dict'' [VClass ''str'', VClass ''float''])]"

text \<open>The invariant carried through a run of set operations.\<close>

definition bucket_ok :: "kind \<Rightarrow> string \<Rightarrow> Cache \<Rightarrow> bool" where
  "bucket_ok k t c =
     (case get_kind k c t of
        None \<Rightarrow> True
      | Some b \<Rightarrow> keyed (identity_field k) b \<and> unique_identities (identity_field k) b)"

section \<open>Properties of the merge cache\<close>

subsection \<open>Auxiliary facts\<close>

lemma identity_value_Some:
  "identity_value f r = Some k \<longleftrightarrow> (\<exists>v. r f = Some v \<and> hash_key v = Some k)"
  by (auto simp: identity_value_def split: option.splits)

lemma identity_value_None:
  "identity_value f r = None \<longleftrightarrow> (r f = None \<or> (\<exists>v. r f = Some v \<and> hash_key v = None))"
  by (auto simp: identity_value_def split: option.splits)

lemma keyed_Nil [simp]: "keyed f []"
  by (simp add: keyed_def)

lemma keyed_Cons [simp]:
  "keyed f (r # rs) \<longleftrightarrow> identity_value f r \<noteq> None \<and> keyed f rs"
  by (simp add: keyed_def)

lemma keyed_append [simp]: "keyed f (xs @ ys) \<longleftrightarrow> keyed f xs \<and> keyed f ys"
  by (simp add: keyed_def)

lemma keyed_filter: "keyed f xs \<Longrightarrow> keyed f (filter P xs)"
  by (induction xs) auto

lemma keyed_iff: "keyed f xs \<longleftrightarrow> (\<forall>r \<in> set xs. identity_value f r \<noteq> None)"
  by (simp add: keyed_def list_all_iff)

lemma existing_keys_of_keyed:
  "keyed f xs \<Longrightarrow> existing_keys_of xs f = Inr {k. \<exists>r \<in> set xs. identity_value f r = Some k}"
proof (induction xs)
  case Nil
  then show ?case by simp
next
  case (Cons r rs)
  then obtain k where k: "identity_value f r = Some k" by auto
  then obtain v where v: "r f = Some v" "hash_key v = Some k"
    by (auto simp: identity_value_Some)
  from Cons have "existing_keys_of rs f = Inr {k. \<exists>r \<in> set rs. identity_value f r = Some k}"
    by simp
  with k v show ?case by auto
qed

lemma existing_keys_of_unkeyed:
  "\<not> keyed f xs \<Longrightarrow> \<exists>e. existing_keys_of xs f = Inl e"
  by (induction xs) (auto simp: identity_value_None split: option.splits sum.splits)

lemma new_items_keyed:
  "keyed f xs \<Longrightarrow>
   new_items xs f ks = Inr (filter (\<lambda>r. \<forall>k. identity_value f r = Some k \<longrightarrow> k \<notin> ks) xs)"
proof (induction xs)
  case Nil
  then show ?case by simp
next
  case (Cons r rs)
  then obtain k where k: "identity_value f r = Some k" by auto
  then obtain v where v: "r f = Some v" "hash_key v = Some k"
    by (auto simp: identity_value_Some)
  from Cons have
    "new_items rs f ks = Inr (filter (\<lambda>r. \<forall>k. identity_value f r = Some k \<longrightarrow> k \<notin> ks) rs)"
    by simp
  with k v show ?case by auto
qed

lemma new_items_unkeyed:
  "\<not> keyed f xs \<Longrightarrow> \<exists>e. new_items xs f ks = Inl e"
  by (induction xs) (auto simp: identity_value_None split: option.splits sum.splits)

lemma fresh_filter_eq:
  assumes "keyed f incoming"
  shows "filter (\<lambda>r. \<forall>k. identity_value f r = Some k \<longrightarrow>
            k \<notin> {k. \<exists>r \<in> set existing. identity_value f r = Some k}) incoming
         = filter (fresh_for f existing) incoming"
proof (rule filter_cong[OF refl])
  fix r assume "r \<in> set incoming"
  with assms obtain k where "identity_value f r = Some k"
    by (auto simp: keyed_iff)
  then show "(\<forall>k. identity_value f r = Some k \<longrightarrow>
            k \<notin> {k. \<exists>r \<in> set existing. identity_value f r = Some k}) = fresh_for f existing r"
    by (auto simp: fresh_for_def image_iff)
qed

lemma merge_data_keyed:
  assumes "existing \<noteq> []" "keyed f existing" "keyed f incoming"
  shows "merge_data (Some existing) incoming f
         = Inr (existing @ filter (fresh_for f existing) incoming)"
proof -
  have "new_items incoming f {k. \<exists>r \<in> set existing. identity_value f r = Some k}
        = Inr (filter (fresh_for f existing) incoming)"
    using assms(3) by (simp only: new_items_keyed fresh_filter_eq)
  with assms show ?thesis
    by (simp only: merge_data_def existing_keys_of_keyed option.case sum.case if_False)
qed

lemma merge_data_unkeyed:
  assumes "existing \<noteq> []" "\<not> (keyed f existing \<and> keyed f incoming)"
  shows "\<exists>e. merge_data (Some existing) incoming f = Inl e"
proof (cases "keyed f existing")
  case False
  then obtain e where "existing_keys_of existing f = Inl e"
    using existing_keys_of_unkeyed by blast
  with assms(1) show ?thesis by (simp add: merge_data_def)
next
  case True
  with assms(2) obtain e where
    "new_items incoming f {k. \<exists>r \<in> set existing. identity_value f r = Some k} = Inl e"
    using new_items_unkeyed by blast
  with assms(1) True show ?thesis
    by (simp add: merge_data_def existing_keys_of_keyed)
qed

lemma merge_data_empty:
  "existing = None \<or> existing = Some [] \<Longrightarrow> merge_data existing incoming f = Inr incoming"
  by (auto simp: merge_data_def)

lemma set_kind_eq:
  "set_kind k c t data =
     (case merge_data (get_kind k c t) data (identity_field k) of
        Inl e \<Rightarrow> (Some e, c)
      | Inr m \<Rightarrow> (None, store_kind k c t m))"
  by (cases k)
     (simp_all add: set_prices_def set_financial_metrics_def set_line_items_def
        set_insider_trades_def set_company_news_def get_prices_def get_financial_metrics_def
        get_line_items_def get_insider_trades_def get_company_news_def split: sum.splits)

lemma get_store_kind [simp]: "get_kind k (store_kind k c t m) t = Some m"
  by (cases k)
     (simp_all add: get_prices_def get_financial_metrics_def
        get_line_items_def get_insider_trades_def get_company_news_def)

lemma store_kind_same: "get_kind k c t = Some m \<Longrightarrow> store_kind k c t m = c"
  by (cases k)
     (auto simp: get_prices_def get_financial_metrics_def
        get_line_items_def get_insider_trades_def get_company_news_def fun_upd_idem)

lemma get_kind_init [simp]: "get_kind k init_cache t = None"
  by (cases k)
     (simp_all add: init_cache_def get_prices_def get_financial_metrics_def
        get_line_items_def get_insider_trades_def get_company_news_def)

lemma count_list_filter:
  "count_list (filter P xs) r = (if P r then count_list xs r else 0)"
  by (induction xs) auto

lemma fresh_for_notin: "fresh_for f existing r \<Longrightarrow> r \<notin> set existing"
  by (auto simp: fresh_for_def)


lemma iv_A1: "identity_value ''id'' row_A1 = Some (HStr ''A'')"
  by (simp add: identity_value_def row_A1_def)

lemma iv_A2: "identity_value ''id'' row_A2 = Some (HStr ''A'')"
  by (simp add: identity_value_def row_A2_def)

lemma iv_B3: "identity_value ''id'' row_B3 = Some (HStr ''B'')"
  by (simp add: identity_value_def row_B3_def)

lemma iv_p1: "identity_value ''time'' row_p1 = Some (HStr ''2024-01-02'')"
  by (simp add: identity_value_def row_p1_def)

lemma iv_p2: "identity_value ''time'' row_p2 = Some (HStr ''2024-01-02'')"
  by (simp add: identity_value_def row_p2_def)

lemma iv_p3: "identity_value ''time'' row_p3 = Some (HStr ''2024-01-03'')"
  by (simp add: identity_value_def row_p3_def)

lemma time_p1: "row_p1 ''time'' = Some (VStr ''2024-01-02'')"
  by (simp add: row_p1_def)

lemma time_p2: "row_p2 ''time'' = Some (VStr ''2024-01-02'')"
  by (simp add: row_p2_def)

lemma time_p3: "row_p3 ''time'' = Some (VStr ''2024-01-03'')"
  by (simp add: row_p3_def)

lemma time_nokey: "row_nokey ''time'' = None"
  by (simp add: row_nokey_def)

lemma cache_p1_bucket: "get_kind Price cache_p1 ''AAPL'' = Some [row_p1]"
  by (simp add: cache_p1_def set_prices_def get_prices_def init_cache_def merge_data_def)

lemma merge_again:
  assumes "merge_data existing R f = Inr m"
  shows "merge_data (Some m) R f = Inr m \<or> (\<exists>e. merge_data (Some m) R f = Inl e)"
proof (cases "m = []")
  case True
  with assms have "R = []"
    by (auto simp: merge_data_def split: option.splits if_splits sum.splits)
  with True show ?thesis by (simp add: merge_data_def)
next
  case False
  show ?thesis
  proof (cases "keyed f m \<and> keyed f R")
    case nk: False
    with False show ?thesis using merge_data_unkeyed by blast
  next
    case k: True
    have cover: "\<forall>r \<in> set R. \<not> fresh_for f m r"
    proof (cases "existing = None \<or> existing = Some []")
      case True
      with assms have "m = R" by (simp add: merge_data_empty)
      then show ?thesis by (auto simp: fresh_for_def)
    next
      case ne: False
      then obtain ex where ex: "existing = Some ex" "ex \<noteq> []" by auto
      from k assms ex have kex: "keyed f ex"
        using merge_data_unkeyed[of ex f R] by auto
      with ex k assms have "m = ex @ filter (fresh_for f ex) R"
        by (simp add: merge_data_keyed)
      then show ?thesis by (auto simp: fresh_for_def)
    qed
    then have "filter (fresh_for f m) R = []"
      by (simp add: filter_empty_conv)
    with False k show ?thesis by (simp add: merge_data_keyed)
  qed
qed

lemma merge_keyed_result:
  assumes "merge_data existing R f = Inr m" "keyed f R"
  shows "m = [] \<or> keyed f m"
proof (cases "existing = None \<or> existing = Some []")
  case True
  with assms show ?thesis by (simp add: merge_data_empty)
next
  case False
  then obtain ex where ex: "existing = Some ex" "ex \<noteq> []" by auto
  with assms have kex: "keyed f ex"
    using merge_data_unkeyed[of ex f R] by auto
  with ex assms have "m = ex @ filter (fresh_for f ex) R"
    by (simp add: merge_data_keyed)
  with kex assms(2) show ?thesis by (simp add: keyed_filter)
qed

lemma merge_preserves_unique:
  assumes "case existing of None \<Rightarrow> True
           | Some ex \<Rightarrow> keyed f ex \<and> unique_identities f ex"
    and "keyed f R" and "unique_identities f R"
  shows "\<exists>m. merge_data existing R f = Inr m \<and> keyed f m \<and> unique_identities f m"
proof (cases "existing = None \<or> existing = Some []")
  case True
  with assms show ?thesis by (simp add: merge_data_empty)
next
  case False
  then obtain ex where ex: "existing = Some ex" "ex \<noteq> []" by auto
  with assms have kex: "keyed f ex" and uex: "unique_identities f ex" by auto
  let ?m = "ex @ filter (fresh_for f ex) R"
  have m: "merge_data existing R f = Inr ?m"
    using ex kex assms(2) by (simp add: merge_data_keyed)
  have "distinct (map (identity_value f) (filter (fresh_for f ex) R))"
    using assms(3) by (simp add: unique_identities_def distinct_map_filter)
  moreover have "set (map (identity_value f) ex)
        \<inter> set (map (identity_value f) (filter (fresh_for f ex) R)) = {}"
    by (auto simp: fresh_for_def) (metis imageI)
  ultimately have "unique_identities f ?m"
    using uex by (simp add: unique_identities_def)
  with m kex assms(2) show ?thesis by (simp add: keyed_filter)
qed

lemma set_many_preserves:
  assumes "bucket_ok k t c"
    and "list_all (\<lambda>R. keyed (identity_field k) R \<and> unique_identities (identity_field k) R) Rs"
  shows "fst (set_many k t c Rs) = None \<and> bucket_ok k t (snd (set_many k t c Rs))
       \<and> (Rs \<noteq> [] \<or> get_kind k c t \<noteq> None
            \<longrightarrow> get_kind k (snd (set_many k t c Rs)) t \<noteq> None)"
  using assms
proof (induction Rs arbitrary: c)
  case Nil
  then show ?case by simp
next
  case (Cons R Rs)
  from Cons.prems obtain m where
    m: "merge_data (get_kind k c t) R (identity_field k) = Inr m"
       "keyed (identity_field k) m" "unique_identities (identity_field k) m"
    using merge_preserves_unique[where existing = "get_kind k c t"
        and f = "identity_field k" and R = R]
    by (auto simp: bucket_ok_def)
  then have s: "set_kind k c t R = (None, store_kind k c t m)"
    by (simp add: set_kind_eq)
  have "bucket_ok k t (store_kind k c t m)"
    using m by (simp add: bucket_ok_def)
  with Cons.IH[of "store_kind k c t m"] Cons.prems(2) s show ?case by simp
qed

subsection \<open>The merge algorithm\<close>

text \<open>
  Claim C3. For a non-empty \<open>existing\<close> list and an incoming list whose rows all carry a
  (hashable) identity value, the merge returns \<open>existing\<close> followed by exactly the
  incoming rows whose identity value does not occur in \<open>existing\<close>, in their order. So
  every existing row is in the result; an incoming row with a fresh identity value occurs
  in the result as often as in \<open>incoming\<close> (once for each occurrence); an incoming row
  whose identity value is taken is dropped, the result holding it only as often as
  \<open>existing\<close> did.
\<close>

theorem merge_data_existing_then_fresh:
  assumes "existing \<noteq> []" and "keyed f existing" and "keyed f incoming"
  shows "\<exists>res. merge_data (Some existing) incoming f = Inr res
           \<and> res = existing @ filter (fresh_for f existing) incoming
           \<and> set existing \<subseteq> set res
           \<and> (\<forall>r \<in> set incoming.
                 if fresh_for f existing r
                 then count_list res r = count_list incoming r
                 else count_list res r = count_list existing r)"
proof -
  let ?res = "existing @ filter (fresh_for f existing) incoming"
  have m: "merge_data (Some existing) incoming f = Inr ?res"
    using assms by (rule merge_data_keyed)
  have c: "\<forall>r \<in> set incoming.
             if fresh_for f existing r
             then count_list ?res r = count_list incoming r
             else count_list ?res r = count_list existing r"
    by (auto simp: count_list_filter dest: fresh_for_notin)
  from m c show ?thesis by auto
qed

text \<open>The duplicate-drop example: the old \<open>A\<close> wins, \<open>v = 2\<close> is discarded, \<open>B\<close> is appended.\<close>

theorem merge_data_existing_then_fresh_witness:
  "merge_data (Some [row_A1]) [row_A2, row_B3] ''id'' = Inr [row_A1, row_B3]"
proof -
  have k1: "keyed ''id'' [row_A1]" by (simp add: iv_A1)
  have k2: "keyed ''id'' [row_A2, row_B3]" by (simp add: iv_A2 iv_B3)
  have ne: "[row_A1] \<noteq> []" by simp
  from merge_data_existing_then_fresh [OF ne k1 k2]
  show ?thesis by (simp add: fresh_for_def iv_A1 iv_A2 iv_B3)
qed

subsection \<open>The bucket invariant\<close>

text \<open>
  Claim C4, as stated, fails: the first set for a ticker stores the incoming list as it
  is, so two incoming rows with the same \<open>time\<close> both end up in the bucket.
\<close>

theorem first_set_keeps_duplicates_counterexample:
  "fst (set_many Price ''AAPL'' init_cache [[row_p1, row_p2]]) = None
   \<and> get_kind Price (snd (set_many Price ''AAPL'' init_cache [[row_p1, row_p2]])) ''AAPL''
       = Some [row_p1, row_p2]
   \<and> \<not> unique_identities (identity_field Price) [row_p1, row_p2]"
  by (simp add: set_prices_def get_prices_def init_cache_def merge_data_def
        unique_identities_def iv_p1 iv_p2)

text \<open>
  Claim C4, amended. Starting from the empty cache, after any run of set operations of
  one kind on one ticker in which every incoming list has pairwise different identity
  values (each row carrying a hashable one), no set raises and no two rows of the stored
  bucket share an identity value.
\<close>

theorem set_many_unique_identities:
  assumes "list_all (\<lambda>R. keyed (identity_field k) R \<and> unique_identities (identity_field k) R) Rs"
  shows "fst (set_many k t init_cache Rs) = None
       \<and> (case get_kind k (snd (set_many k t init_cache Rs)) t of
            None \<Rightarrow> Rs = []
          | Some b \<Rightarrow> unique_identities (identity_field k) b)"
proof -
  have "bucket_ok k t init_cache" by (simp add: bucket_ok_def)
  from set_many_preserves[OF this assms]
  have r: "fst (set_many k t init_cache Rs) = None"
          "bucket_ok k t (snd (set_many k t init_cache Rs))"
          "Rs \<noteq> [] \<longrightarrow> get_kind k (snd (set_many k t init_cache Rs)) t \<noteq> None"
    by simp_all
  then show ?thesis by (auto simp: bucket_ok_def split: option.splits)
qed

theorem set_many_unique_identities_witness:
  "fst (set_many Price ''AAPL'' init_cache [[row_p1], [row_p2, row_p3]]) = None
   \<and> get_kind Price (snd (set_many Price ''AAPL'' init_cache [[row_p1], [row_p2, row_p3]]))
        ''AAPL'' = Some [row_p1, row_p3]
   \<and> unique_identities (identity_field Price) [row_p1, row_p3]"
proof -
  have h: "list_all (\<lambda>R. keyed (identity_field Price) R
              \<and> unique_identities (identity_field Price) R) [[row_p1], [row_p2, row_p3]]"
    by (simp add: unique_identities_def iv_p1 iv_p2 iv_p3)
  have g: "get_kind Price (snd (set_many Price ''AAPL'' init_cache [[row_p1], [row_p2, row_p3]]))
        ''AAPL'' = Some [row_p1, row_p3]"
    by (simp add: set_prices_def get_prices_def init_cache_def merge_data_def
          time_p1 time_p2 time_p3)
  from set_many_unique_identities [OF h, of "''AAPL''"] g show ?thesis by simp
qed

subsection \<open>Rows without the identity field\<close>

text \<open>
  Claim C5, as stated, fails for an empty or absent bucket: a row without \<open>time\<close> is
  stored by the first set for a ticker, and nothing is raised.
\<close>

theorem set_prices_unchecked_first_counterexample:
  "row_nokey (identity_field Price) = None
   \<and> get_prices init_cache ''AAPL'' = None
   \<and> fst (set_prices init_cache ''AAPL'' [row_nokey]) = None
   \<and> get_prices (snd (set_prices init_cache ''AAPL'' [row_nokey])) ''AAPL'' = Some [row_nokey]"
  by (simp add: set_prices_def get_prices_def init_cache_def merge_data_def time_nokey)

text \<open>
  Claim C5, amended. For a set operation of any kind with an incoming row that lacks the
  kind's identity field: when the ticker's bucket is non-empty the operation raises and
  the cache stays as it was; when the bucket is empty or absent nothing is raised and the
  incoming list becomes the bucket as it is.
\<close>

theorem set_kind_missing_identity:
  assumes "\<exists>r \<in> set data. r (identity_field k) = None"
  shows "(\<forall>ex. get_kind k c t = Some ex \<and> ex \<noteq> [] \<longrightarrow>
            (\<exists>e. set_kind k c t data = (Some e, c)))
       \<and> (get_kind k c t = None \<or> get_kind k c t = Some [] \<longrightarrow>
            fst (set_kind k c t data) = None
            \<and> get_kind k (snd (set_kind k c t data)) t = Some data)"
proof (intro conjI allI impI)
  fix ex assume ex: "get_kind k c t = Some ex \<and> ex \<noteq> []"
  from assms have "\<not> keyed (identity_field k) data"
    by (auto simp: keyed_iff identity_value_None)
  then obtain e where "merge_data (Some ex) data (identity_field k) = Inl e"
    using merge_data_unkeyed ex by blast
  with ex show "\<exists>e. set_kind k c t data = (Some e, c)"
    by (simp add: set_kind_eq)
next
  assume "get_kind k c t = None \<or> get_kind k c t = Some []"
  then have m: "merge_data (get_kind k c t) data (identity_field k) = Inr data"
    by (rule merge_data_empty)
  then show "fst (set_kind k c t data) = None"
    by (simp add: set_kind_eq)
  from m show "get_kind k (snd (set_kind k c t data)) t = Some data"
    by (simp add: set_kind_eq)
qed

theorem set_kind_missing_identity_witness:
  "(\<exists>e. set_kind Price cache_p1 ''AAPL'' [row_nokey] = (Some e, cache_p1))
   \<and> fst (set_kind Price init_cache ''AAPL'' [row_nokey]) = None
   \<and> get_kind Price (snd (set_kind Price init_cache ''AAPL'' [row_nokey])) ''AAPL''
       = Some [row_nokey]"
proof -
  have h: "\<exists>r \<in> set [row_nokey]. r (identity_field Price) = None"
    by (simp add: time_nokey)
  have g: "get_kind Price cache_p1 ''AAPL'' = Some [row_p1] \<and> [row_p1] \<noteq> []"
    by (simp only: cache_p1_bucket) simp
  have g0: "get_kind Price init_cache ''AAPL'' = None"
    by (simp add: get_prices_def init_cache_def)
  from set_kind_missing_identity [OF h, of cache_p1 "''AAPL''"] g
       set_kind_missing_identity [OF h, of init_cache "''AAPL''"] g0
  show ?thesis by blast
qed

subsection \<open>Setting the same rows twice\<close>

text \<open>
  Claim C6. For every kind, ticker, cache and list of rows, a second set of the same rows
  leaves the cache, and so the ticker's bucket, as the first set left it. When the rows
  all carry a hashable identity value and the first set did not raise, the second does
  not raise either.
\<close>

theorem set_kind_twice:
  "snd (set_kind k (snd (set_kind k c t R)) t R) = snd (set_kind k c t R)
   \<and> (keyed (identity_field k) R \<and> fst (set_kind k c t R) = None
        \<longrightarrow> fst (set_kind k (snd (set_kind k c t R)) t R) = None)"
proof (cases "merge_data (get_kind k c t) R (identity_field k)")
  case (Inl e)
  then show ?thesis by (simp add: set_kind_eq)
next
  case (Inr m)
  then have c1: "snd (set_kind k c t R) = store_kind k c t m"
    by (simp add: set_kind_eq)
  have again: "set_kind k (store_kind k c t m) t R =
     (case merge_data (Some m) R (identity_field k) of
        Inl e \<Rightarrow> (Some e, store_kind k c t m)
      | Inr m' \<Rightarrow> (None, store_kind k (store_kind k c t m) t m'))"
    by (simp add: set_kind_eq)
  have same: "snd (set_kind k (store_kind k c t m) t R) = store_kind k c t m"
    using merge_again[OF Inr] by (auto simp: again store_kind_same)
  have ok: "fst (set_kind k (store_kind k c t m) t R) = None" if "keyed (identity_field k) R"
  proof -
    have "\<exists>m'. merge_data (Some m) R (identity_field k) = Inr m'"
    proof (cases "m = []")
      case True
      then show ?thesis by (simp add: merge_data_def)
    next
      case False
      with merge_keyed_result[OF Inr that] have "keyed (identity_field k) m" by simp
      from merge_data_keyed[OF False this that] show ?thesis by blast
    qed
    then show ?thesis by (auto simp: again)
  qed
  from same ok show ?thesis by (simp only: c1) simp
qed

theorem set_kind_twice_witness:
  "snd (set_kind Price (snd (set_kind Price init_cache ''AAPL'' [row_p1, row_p3])) ''AAPL''
          [row_p1, row_p3])
     = snd (set_kind Price init_cache ''AAPL'' [row_p1, row_p3])
   \<and> fst (set_kind Price (snd (set_kind Price init_cache ''AAPL'' [row_p1, row_p3])) ''AAPL''
          [row_p1, row_p3]) = None
   \<and> get_kind Price (snd (set_kind Price init_cache ''AAPL'' [row_p1, row_p3])) ''AAPL''
     = Some [row_p1, row_p3]"
proof -
  have k: "keyed (identity_field Price) [row_p1, row_p3]"
    by (simp add: iv_p1 iv_p3)
  have f: "fst (set_kind Price init_cache ''AAPL'' [row_p1, row_p3]) = None"
    by (simp add: set_prices_def init_cache_def merge_data_def)
  have g: "get_kind Price (snd (set_kind Price init_cache ''AAPL'' [row_p1, row_p3])) ''AAPL''
     = Some [row_p1, row_p3]"
    by (simp add: set_prices_def get_prices_def init_cache_def merge_data_def)
  from set_kind_twice [of Price init_cache "''AAPL''" "[row_p1, row_p3]"] k f g
  show ?thesis by blast
qed

subsection \<open>A set that raises changes nothing\<close>

text \<open>
  Claim C10. For every kind, ticker and incoming list, if the set operation raises, the
  cache after the call is the cache before it: the bucket of that ticker and every other
  bucket of every kind read as they did.
\<close>

theorem set_kind_error_leaves_cache:
  assumes "fst (set_kind k c t data) = Some e"
  shows "snd (set_kind k c t data) = c
       \<and> (\<forall>k' t'. get_kind k' (snd (set_kind k c t data)) t' = get_kind k' c t')"
proof -
  from assms have "snd (set_kind k c t data) = c"
    by (auto simp: set_kind_eq split: sum.splits)
  then show ?thesis by simp
qed

theorem set_kind_error_leaves_cache_witness:
  "fst (set_kind Price cache_p1 ''AAPL'' [row_nokey]) = Some (KeyError ''time'')
   \<and> snd (set_kind Price cache_p1 ''AAPL'' [row_nokey]) = cache_p1
   \<and> get_kind Price (snd (set_kind Price cache_p1 ''AAPL'' [row_nokey])) ''AAPL''
       = Some [row_p1]"
proof -
  have b: "prices_cache cache_p1 ''AAPL'' = Some [row_p1]"
    using cache_p1_bucket by (simp add: get_prices_def)
  have h: "fst (set_kind Price cache_p1 ''AAPL'' [row_nokey]) = Some (KeyError ''time'')"
    by (simp add: set_prices_def b merge_data_def time_p1 time_nokey)
  from set_kind_error_leaves_cache [OF h] h cache_p1_bucket show ?thesis by simp
qed

section \<open>Properties of the invocation core\<close>

subsection \<open>Default-instance synthesis\<close>

text \<open>
  Claim C7 (for every target schema the synthesis gives each field the default of its
  declared type, the empty mapping for a mapping field, and returns a valid instance)
  fails on the code for a mapping field declared with the builtin \<^verbatim>\<open>dict\<close>: the annotation
  has no \<^verbatim>\<open>__origin__\<close>, so the branch that the code comments as the one for dict fields is
  not taken, and the field gets \<^verbatim>\<open>None\<close>, which is what the constructor receives. A
  parametrised \<^verbatim>\<open>dict[str, float]\<close> field gets the empty mapping.
\<close>

theorem default_of_bare_dict_field:
  "default_values bare_dict_fields = Inr [(''data'', VNone)]
   \<and> create_default_response \<lparr>model_fields = bare_dict_fields, construct = validate\<rparr>
       = validate [(''data'', VNone)]
   \<and> default_values typed_dict_fields = Inr [(''data'', VDict [])]"
  by (simp add: bare_dict_fields_def typed_dict_fields_def create_default_response_def)

subsection \<open>Extraction of fenced JSON\<close>

lemma occurs_at_0: "occurs_at sub s 0 = prefix sub s"
  by (simp add: occurs_at_def)

lemma occurs_at_Suc: "occurs_at sub (c # cs) (Suc i) = occurs_at sub cs i"
  by (simp add: occurs_at_def)

lemma occurs_at_Nil: "occurs_at sub [] i = (i = 0 \<and> sub = [])"
  by (auto simp: occurs_at_def)

lemma str_find_Some: "str_find s sub = Some i \<longleftrightarrow> first_at sub s i"
proof (induction s arbitrary: i)
  case Nil
  then show ?case by (auto simp: first_at_def occurs_at_Nil)
next
  case (Cons c cs)
  show ?case
  proof (cases "prefix sub (c # cs)")
    case True
    then have "first_at sub (c # cs) i \<longleftrightarrow> i = 0"
      by (cases i) (auto simp: first_at_def occurs_at_0)
    with True show ?thesis by auto
  next
    case False
    have "first_at sub (c # cs) i \<longleftrightarrow> (\<exists>k. i = Suc k \<and> first_at sub cs k)"
    proof (cases i)
      case 0
      with False show ?thesis by (simp add: first_at_def occurs_at_0)
    next
      case (Suc k)
      have "(\<forall>j<Suc k. \<not> occurs_at sub (c # cs) j) \<longleftrightarrow> (\<forall>j<k. \<not> occurs_at sub cs j)"
        using False by (auto simp: less_Suc_eq_0_disj occurs_at_0 occurs_at_Suc)
      with Suc show ?thesis by (simp add: first_at_def occurs_at_Suc)
    qed
    moreover have "str_find (c # cs) sub = Some i
          \<longleftrightarrow> (\<exists>k. i = Suc k \<and> str_find cs sub = Some k)"
      using False by (auto split: option.splits)
    ultimately show ?thesis by (simp add: Cons.IH)
  qed
qed

lemma str_find_None: "str_find s sub = None \<longleftrightarrow> (\<forall>i. \<not> occurs_at sub s i)"
proof (induction s)
  case Nil
  then show ?case by (auto simp: occurs_at_Nil)
next
  case (Cons c cs)
  have "(\<forall>i. \<not> occurs_at sub (c # cs) i)
        \<longleftrightarrow> \<not> prefix sub (c # cs) \<and> (\<forall>i. \<not> occurs_at sub cs i)"
    by (metis occurs_at_0 occurs_at_Suc not0_implies_Suc)
  with Cons show ?case by (auto split: option.splits)
qed


lemma signal_loads_json: "signal_loads signal_json
     = Inr (VDict [(''signal'', VStr ''bullish''), (''confidence'', VFloat 80),
                   (''reasoning'', VStr ''x'')])"
  by (simp add: signal_loads_def signal_json_def json_space_def)

lemma signal_reply_open: "str_find signal_reply json_fence = Some 9"
  by (simp add: signal_reply_def json_fence_def signal_json_def code_fence_def)

lemma signal_reply_rest:
  "drop 16 signal_reply = [CHR 0x0A] @ signal_json @ [CHR 0x0A] @ code_fence @ [CHR 0x0A] @ ''trailing''"
  by (simp add: signal_reply_def json_fence_def)

lemma signal_reply_close: "str_find (drop 16 signal_reply) code_fence = Some 56"
  by (simp add: signal_reply_rest) (simp add: signal_json_def code_fence_def)

lemma signal_reply_between: "strip (take 56 (drop 16 signal_reply)) = signal_json"
  by (simp add: signal_reply_rest) (simp add: signal_json_def code_fence_def strip_def is_space_def)

lemma plain_reply_open: "str_find plain_reply json_fence = None"
  by (simp add: plain_reply_def json_fence_def)

lemma open_reply_open: "str_find open_reply json_fence = Some 0"
  by (simp add: open_reply_def json_fence_def)

lemma open_reply_close: "str_find (drop 7 open_reply) code_fence = None"
  by (simp add: open_reply_def json_fence_def code_fence_def)

lemma bad_reply_open: "str_find bad_reply json_fence = Some 0"
  by (simp add: bad_reply_def json_fence_def)

lemma bad_reply_close: "str_find (drop 7 bad_reply) code_fence = Some 7"
  by (simp add: bad_reply_def json_fence_def code_fence_def)

lemma bad_reply_between: "strip (take 7 (drop 7 bad_reply)) = ''{broken''"
  by (simp add: bad_reply_def json_fence_def code_fence_def strip_def is_space_def)

lemma bad_loads: "signal_loads ''{broken'' = Inl JSONDecodeError"
  by (simp add: signal_loads_def signal_json_def json_space_def)

lemma nbsp_reply_open: "str_find nbsp_reply json_fence = Some 0"
  by (simp add: nbsp_reply_def json_fence_def)

lemma nbsp_reply_rest: "drop 7 nbsp_reply = padded_json @ code_fence"
  by (simp add: nbsp_reply_def json_fence_def)

lemma nbsp_reply_close: "str_find (drop 7 nbsp_reply) code_fence = Some 56"
  by (simp add: nbsp_reply_rest) (simp add: padded_json_def signal_json_def code_fence_def)

lemma nbsp_reply_between: "take 56 (drop 7 nbsp_reply) = padded_json"
  by (simp add: nbsp_reply_rest) (simp add: padded_json_def signal_json_def)

lemma nbsp_strip: "strip padded_json = signal_json"
  by (simp add: padded_json_def signal_json_def strip_def is_space_def)

lemma nbsp_loads: "signal_loads padded_json = Inl JSONDecodeError"
  by (simp add: signal_loads_def padded_json_def signal_json_def json_space_def)

text \<open>
  Claim C8, as stated, fails: the text between the fences is not what is parsed. With the
  JSON document padded by no-break spaces, the text between the fences does not parse,
  and the extraction still returns the parsed object, because the code strips the text
  first.
\<close>

theorem extract_padded_block_counterexample:
  "str_find nbsp_reply json_fence = Some 0
   \<and> str_find (drop (0 + 7) nbsp_reply) code_fence = Some 56
   \<and> signal_loads (take 56 (drop (0 + 7) nbsp_reply)) = Inl JSONDecodeError
   \<and> extract_json_from_deepseek_response signal_loads nbsp_reply
       = VDict [(''signal'', VStr ''bullish''), (''confidence'', VFloat 80),
                (''reasoning'', VStr ''x'')]"
  by (simp add: nbsp_reply_open nbsp_reply_close nbsp_reply_between nbsp_loads nbsp_strip
        extract_json_from_deepseek_response_def signal_loads_json)

text \<open>
  Claim C8, amended. When the text has an opening fence tagged json, first at index \<open>i\<close>,
  and the first closing fence after it is at index \<open>j\<close> of the rest, the extraction strips
  the text between the two of surrounding white space, parses the stripped text as JSON
  and returns the parsed value. It returns \<^verbatim>\<open>None\<close> when the stripped text does not parse,
  when the text has no opening fence, and when no closing fence follows the opening one.
\<close>

theorem extract_json_fenced:
  "(first_at json_fence content i \<and> first_at code_fence (drop (i + 7) content) j
      \<and> json_loads (strip (take j (drop (i + 7) content))) = Inr parsed \<longrightarrow>
      extract_json_from_deepseek_response json_loads content = parsed)
   \<and> (first_at json_fence content i \<and> first_at code_fence (drop (i + 7) content) j
      \<and> json_loads (strip (take j (drop (i + 7) content))) = Inl e \<longrightarrow>
      extract_json_from_deepseek_response json_loads content = VNone)
   \<and> ((\<forall>i. \<not> occurs_at json_fence content i) \<longrightarrow>
        extract_json_from_deepseek_response json_loads content = VNone)
   \<and> (first_at json_fence content i \<and> (\<forall>j. \<not> occurs_at code_fence (drop (i + 7) content) j) \<longrightarrow>
        extract_json_from_deepseek_response json_loads content = VNone)"
proof -
  have found: "extract_json_from_deepseek_response json_loads content
        = (case json_loads (strip (take j (drop (i + 7) content))) of
             Inl e \<Rightarrow> VNone | Inr parsed \<Rightarrow> parsed)"
    if "first_at json_fence content i" "first_at code_fence (drop (i + 7) content) j"
  proof -
    from that have "str_find content json_fence = Some i"
      "str_find (drop (i + 7) content) code_fence = Some j"
      by (simp_all add: str_find_Some)
    then show ?thesis
      by (simp add: extract_json_from_deepseek_response_def)
  qed
  have no_open: "extract_json_from_deepseek_response json_loads content = VNone"
    if "\<forall>i. \<not> occurs_at json_fence content i"
  proof -
    from that have "str_find content json_fence = None" by (simp add: str_find_None)
    then show ?thesis by (simp add: extract_json_from_deepseek_response_def)
  qed
  have no_close: "extract_json_from_deepseek_response json_loads content = VNone"
    if "first_at json_fence content i" "\<forall>j. \<not> occurs_at code_fence (drop (i + 7) content) j"
  proof -
    from that have "str_find content json_fence = Some i"
      "str_find (drop (i + 7) content) code_fence = None"
      by (simp_all add: str_find_Some str_find_None)
    then show ?thesis by (simp add: extract_json_from_deepseek_response_def)
  qed
  from found no_open no_close show ?thesis by simp
qed

text \<open>
  The extraction example, the document padded by no-break spaces, a fenced block that
  does not parse, a text without a fence, and a text whose fence is not closed.
\<close>

theorem extract_json_fenced_witness:
  "extract_json_from_deepseek_response signal_loads signal_reply
     = VDict [(''signal'', VStr ''bullish''), (''confidence'', VFloat 80), (''reasoning'', VStr ''x'')]
   \<and> extract_json_from_deepseek_response signal_loads nbsp_reply
     = VDict [(''signal'', VStr ''bullish''), (''confidence'', VFloat 80), (''reasoning'', VStr ''x'')]
   \<and> extract_json_from_deepseek_response signal_loads bad_reply = VNone
   \<and> extract_json_from_deepseek_response signal_loads plain_reply = VNone
   \<and> extract_json_from_deepseek_response signal_loads open_reply = VNone"
proof -
  have o: "first_at json_fence signal_reply 9"
    using signal_reply_open by (simp add: str_find_Some)
  have c: "first_at code_fence (drop (9 + 7) signal_reply) 56"
    using signal_reply_close by (simp add: str_find_Some)
  have p: "signal_loads (strip (take 56 (drop (9 + 7) signal_reply)))
     = Inr (VDict [(''signal'', VStr ''bullish''), (''confidence'', VFloat 80),
                   (''reasoning'', VStr ''x'')])"
    using signal_reply_between by (simp add: signal_loads_json)
  have no: "first_at json_fence nbsp_reply 0"
    using nbsp_reply_open by (simp add: str_find_Some)
  have nc: "first_at code_fence (drop (0 + 7) nbsp_reply) 56"
    using nbsp_reply_close by (simp add: str_find_Some)
  have np: "signal_loads (strip (take 56 (drop (0 + 7) nbsp_reply)))
     = Inr (VDict [(''signal'', VStr ''bullish''), (''confidence'', VFloat 80),
                   (''reasoning'', VStr ''x'')])"
    using nbsp_reply_between nbsp_strip by (simp add: signal_loads_json)
  have bo: "first_at json_fence bad_reply 0"
    using bad_reply_open by (simp add: str_find_Some)
  have bc: "first_at code_fence (drop (0 + 7) bad_reply) 7"
    using bad_reply_close by (simp add: str_find_Some)
  have bp: "signal_loads (strip (take 7 (drop (0 + 7) bad_reply))) = Inl JSONDecodeError"
    using bad_reply_between by (simp add: bad_loads)
  have n: "\<forall>i. \<not> occurs_at json_fence plain_reply i"
    using plain_reply_open by (simp add: str_find_None)
  have oo: "first_at json_fence open_reply 0"
    using open_reply_open by (simp add: str_find_Some)
  have oc: "\<forall>j. \<not> occurs_at code_fence (drop (0 + 7) open_reply) j"
    using open_reply_close by (simp add: str_find_None)
  from extract_json_fenced [of signal_reply 9 56 signal_loads _ JSONDecodeError] o c p
  have 1: "extract_json_from_deepseek_response signal_loads signal_reply
     = VDict [(''signal'', VStr ''bullish''), (''confidence'', VFloat 80),
              (''reasoning'', VStr ''x'')]"
    by simp
  from extract_json_fenced [of nbsp_reply 0 56 signal_loads _ JSONDecodeError] no nc np
  have 2: "extract_json_from_deepseek_response signal_loads nbsp_reply
     = VDict [(''signal'', VStr ''bullish''), (''confidence'', VFloat 80),
              (''reasoning'', VStr ''x'')]"
    by simp
  from extract_json_fenced [of bad_reply 0 7 signal_loads VNone JSONDecodeError] bo bc bp
  have 3: "extract_json_from_deepseek_response signal_loads bad_reply = VNone" by simp
  from extract_json_fenced [of plain_reply 0 0 signal_loads VNone JSONDecodeError] n
  have 4: "extract_json_from_deepseek_response signal_loads plain_reply = VNone" by simp
  from extract_json_fenced [of open_reply 0 0 signal_loads VNone JSONDecodeError] oo oc
  have 5: "extract_json_from_deepseek_response signal_loads open_reply = VNone" by simp
  from 1 2 3 4 5 show ?thesis by simp
qed

subsection \<open>The import of the registry\<close>

lemma AVAILABLE_MODELS_raises: "AVAILABLE_MODELS = Inl AttributeError"
  by (simp add: AVAILABLE_MODELS_def model_entries_def ModelProvider_attr_def)

lemma import_llm_models_raises: "import_llm_models = Inl AttributeError"
  by (simp add: import_llm_models_def AVAILABLE_MODELS_raises)

lemma call_llm_raises:
  "call_llm getenv chat_class json_loads name model_provider pydantic_model agent_name
     max_retries default_factory lg = (Inl AttributeError, lg)"
  by (simp add: call_llm_def import_llm_models_raises)

text \<open>
  Claim C1 (\<^verbatim>\<open>call_llm\<close> never raises past its boundary and always returns an instance of
  the target schema) fails on the code: the first statement of \<^verbatim>\<open>call_llm\<close> imports the
  registry module, whose list of models reads the member \<^verbatim>\<open>DEEPSEEK\<close> that the enum does not
  have. Every call, whatever its arguments, the environment and the backend, raises
  \<^verbatim>\<open>AttributeError\<close> before anything else is done.
\<close>

theorem call_llm_always_raises:
  "fst (call_llm getenv chat_class json_loads name model_provider pydantic_model agent_name
          max_retries default_factory lg) = Inl AttributeError
   \<and> snd (call_llm getenv chat_class json_loads name model_provider pydantic_model agent_name
          max_retries default_factory lg) = lg"
  by (simp add: call_llm_raises)

text \<open>
  Claim C2 (with every backend attempt failing and \<open>max_retries = 3\<close>: three backend
  invocations, three status callbacks, and the fallback factory's output or the
  synthesized default returned, nothing raised) fails on the code, by the same defect:
  the call of the Warren Buffett agent raises \<^verbatim>\<open>AttributeError\<close> without one backend
  invocation and without one call of the status callback or of the fallback factory.
\<close>

theorem call_llm_no_attempt:
  "fst (call_llm getenv chat_class json_loads ''gpt-4o'' ''OpenAI'' pydantic_model
          (Some ''warren_buffett_agent'') 3 default_factory log0) = Inl AttributeError
   \<and> backend_calls (snd (call_llm getenv chat_class json_loads ''gpt-4o'' ''OpenAI''
          pydantic_model (Some ''warren_buffett_agent'') 3 default_factory log0)) = 0
   \<and> status_updates (snd (call_llm getenv chat_class json_loads ''gpt-4o'' ''OpenAI''
          pydantic_model (Some ''warren_buffett_agent'') 3 default_factory log0)) = []
   \<and> factory_calls (snd (call_llm getenv chat_class json_loads ''gpt-4o'' ''OpenAI''
          pydantic_model (Some ''warren_buffett_agent'') 3 default_factory log0)) = 0"
  by (simp add: call_llm_raises log0_def)

text \<open>
  Claim C9 (for a deepseek model whose replies give no extracted result, \<^verbatim>\<open>call_llm\<close> uses
  all its attempts, never calls the status callback and returns the synthesized default
  even with a fallback factory) fails on the code, by the same defect: the registry that
  would tell a deepseek model cannot be built, and a call for the model \<^verbatim>\<open>deepseek-chat\<close>
  raises \<^verbatim>\<open>AttributeError\<close> instead of returning the synthesized default; no attempt is
  used.
\<close>

theorem call_llm_deepseek_raises:
  "AVAILABLE_MODELS = Inl AttributeError
   \<and> call_llm getenv chat_class json_loads ''deepseek-chat'' model_provider pydantic_model
       agent_name max_retries default_factory lg = (Inl AttributeError, lg)"
  by (simp add: AVAILABLE_MODELS_raises call_llm_raises)


end
